theory Spec2Isabelle
  imports Main "HOL-Library.Sublist"
begin

section \<open>Request values and the Python operations applied to them\<close>

text \<open>
  \<open>request.get_json()\<close> gives the handlers a Python dict decoded from JSON. Its values
  are dynamically typed, and the handlers test them for truth, coerce them with
  \<open>int(...)\<close> and hand them to the database driver, so the model keeps them as JSON
  values. JSON numbers with a fraction or an exponent (Python floats) are outside the
  model. Strings are ASCII text, one \<open>char\<close> per character. Integers are unbounded,
  as Python's are: the driver's refusal of an integer outside the signed 64-bit range
  and the exhaustion of row ids are not modelled.
\<close>

datatype json =
    JNull
  | JBool bool
  | JInt int
  | JStr string
  | JArr "json list"
  | JObj "(string \<times> json) list"

type_synonym body = "string \<rightharpoonup> json"

text \<open>
  The exceptions that can leave a handler. \<open>BindError\<close> is the driver's refusal of a
  parameter type it cannot store (a list or a dict); \<open>IntegrityError\<close> is
  \<open>sqlite3.IntegrityError\<close>, the only one the source catches.
\<close>

datatype exn = TypeError | ValueError | KeyError | BindError | IntegrityError

definition ebind :: "exn + 'a \<Rightarrow> ('a \<Rightarrow> exn + 'b) \<Rightarrow> exn + 'b" where
  "ebind m f = (case m of Inl e \<Rightarrow> Inl e | Inr v \<Rightarrow> f v)"

text \<open>Python truth value of a decoded JSON value (\<open>not data[r]\<close>, \<open>x or d\<close>).\<close>

fun truthy :: "json \<Rightarrow> bool" where
  "truthy JNull = False"
| "truthy (JBool b) = b"
| "truthy (JInt n) = (n \<noteq> 0)"
| "truthy (JStr s) = (s \<noteq> [])"
| "truthy (JArr xs) = (xs \<noteq> [])"
| "truthy (JObj kvs) = (kvs \<noteq> [])"

text \<open>\<open>data.get(k)\<close>: the value, or \<open>None\<close> when the key is absent.\<close>

definition dict_get :: "body \<Rightarrow> string \<Rightarrow> json" where
  "dict_get data k = (case data k of None \<Rightarrow> JNull | Some v \<Rightarrow> v)"

text \<open>\<open>data[k]\<close>: the value; an absent key raises \<open>KeyError\<close>.\<close>

definition subscript :: "body \<Rightarrow> string \<Rightarrow> exn + json" where
  "subscript data k = (case data k of None \<Rightarrow> Inl KeyError | Some v \<Rightarrow> Inr v)"

text \<open>\<open>x or d\<close>: the first operand when it is true, the second otherwise.\<close>

definition py_or :: "json \<Rightarrow> json \<Rightarrow> json" where
  "py_or x d = (if truthy x then x else d)"

text \<open>
  The loop \<open>for r in required: if r not in data or not data[r]: return ...\<close>, as the
  first field that stops it.
\<close>

definition missing :: "body \<Rightarrow> string \<Rightarrow> bool" where
  "missing data r = (case data r of None \<Rightarrow> True | Some v \<Rightarrow> \<not> truthy v)"

definition first_missing :: "string list \<Rightarrow> body \<Rightarrow> string option" where
  "first_missing required data = find (missing data) required"

subsection \<open>Characters\<close>

definition is_space :: "char \<Rightarrow> bool" where
  \<comment> \<open>the ASCII characters Python's \<open>str.isspace\<close> accepts\<close>
  "is_space c = (let n = (of_char c :: nat) in (9 \<le> n \<and> n \<le> 13) \<or> (28 \<le> n \<and> n \<le> 32))"

definition is_digit :: "char \<Rightarrow> bool" where
  "is_digit c = (let n = (of_char c :: nat) in 48 \<le> n \<and> n \<le> 57)"

definition is_upper :: "char \<Rightarrow> bool" where
  "is_upper c = (let n = (of_char c :: nat) in 65 \<le> n \<and> n \<le> 90)"

definition is_lower :: "char \<Rightarrow> bool" where
  "is_lower c = (let n = (of_char c :: nat) in 97 \<le> n \<and> n \<le> 122)"

definition lower_char :: "char \<Rightarrow> char" where
  "lower_char c = (if is_upper c then char_of (of_char c + (32::nat)) else c)"

text \<open>\<open>str.lower()\<close> on ASCII text.\<close>

definition lower :: "string \<Rightarrow> string" where
  "lower s = map lower_char s"

text \<open>\<open>str.strip()\<close> with no argument, and \<open>str.strip(chars)\<close>.\<close>

definition strip :: "string \<Rightarrow> string" where
  "strip s = rev (dropWhile is_space (rev (dropWhile is_space s)))"

definition strip_chars :: "string \<Rightarrow> string \<Rightarrow> string" where
  "strip_chars cs s =
     rev (dropWhile (\<lambda>c. c \<in> set cs) (rev (dropWhile (\<lambda>c. c \<in> set cs) s)))"

text \<open>\<open>str.split()\<close> with no argument: the maximal runs of non-space characters.\<close>

fun split_ws :: "string \<Rightarrow> string \<Rightarrow> string list" where
  "split_ws w [] = (if w = [] then [] else [w])"
| "split_ws w (c # cs) =
     (if is_space c then (if w = [] then split_ws [] cs else w # split_ws [] cs)
      else split_ws (w @ [c]) cs)"

definition split :: "string \<Rightarrow> string list" where
  "split s = split_ws [] s"

text \<open>\<open>sep.join(words)\<close>.\<close>

fun join :: "string \<Rightarrow> string list \<Rightarrow> string" where
  "join sep [] = []"
| "join sep [w] = w"
| "join sep (w # ws) = w @ sep @ join sep ws"

subsection \<open>\<open>int(x)\<close>\<close>

definition digit_val :: "char \<Rightarrow> int" where
  "digit_val c = int (of_char c) - 48"

text \<open>
  The digits of a decimal literal after its first digit: single underscores are allowed
  between digits only.
\<close>

fun parse_digits :: "int \<Rightarrow> string \<Rightarrow> int option" where
  "parse_digits acc [] = Some acc"
| "parse_digits acc [c] = (if is_digit c then Some (10 * acc + digit_val c) else None)"
| "parse_digits acc (c # d # ds) =
     (if is_digit c then parse_digits (10 * acc + digit_val c) (d # ds)
      else if c = CHR ''_'' \<and> is_digit d then parse_digits (10 * acc + digit_val d) ds
      else None)"

definition parse_nat :: "string \<Rightarrow> int option" where
  "parse_nat s =
     (case s of [] \<Rightarrow> None
      | c # cs \<Rightarrow> if is_digit c then parse_digits (digit_val c) cs else None)"

text \<open>
  \<open>int(s)\<close> for a string: surrounding white space is dropped, one sign is allowed,
  then a decimal literal. The interpreter's limit on the number of digits is not
  modelled.
\<close>

definition int_of_str :: "string \<Rightarrow> int option" where
  "int_of_str s =
     (case strip s of [] \<Rightarrow> None
      | c # cs \<Rightarrow>
          if c = CHR ''-'' then map_option uminus (parse_nat cs)
          else if c = CHR ''+'' then parse_nat cs
          else parse_nat (c # cs))"

fun py_int :: "json \<Rightarrow> exn + int" where
  "py_int JNull = Inl TypeError"
| "py_int (JBool b) = Inr (if b then 1 else 0)"
| "py_int (JInt n) = Inr n"
| "py_int (JStr s) = (case int_of_str s of None \<Rightarrow> Inl ValueError | Some n \<Rightarrow> Inr n)"
| "py_int (JArr xs) = Inl TypeError"
| "py_int (JObj kvs) = Inl TypeError"

subsection \<open>\<open>werkzeug.utils.secure_filename\<close>\<close>

text \<open>
  Modelled from the spec: \<open>secure_filename\<close> is imported from werkzeug and is not part
  of the repository. The spec describes its result as restricted to filesystem-safe
  characters, anything unsafe stripped or replaced, with \<open>"Test U!"\<close> giving \<open>test_u\<close>
  once lowercased. The definition follows the library's steps on a POSIX host:
  non-ASCII characters are dropped, \<open>/\<close> becomes a space, the white-space separated
  words are joined with \<open>_\<close>, every character outside \<open>A-Za-z0-9_.-\<close> is removed, and
  leading and trailing \<open>.\<close> and \<open>_\<close> are stripped. (The library first decomposes
  accented letters; on ASCII text that step changes nothing.)
\<close>

definition safe_char :: "char \<Rightarrow> bool" where
  "safe_char c = (is_upper c \<or> is_lower c \<or> is_digit c \<or> c \<in> set ''_.-'')"

definition secure_filename :: "string \<Rightarrow> string" where
  \<comment> \<open>Modelled from the spec: werkzeug's sanitizer, which the repository imports.\<close>
  "secure_filename filename =
     (let ascii = filter (\<lambda>c. (of_char c :: nat) < 128) filename;
          nosep = map (\<lambda>c. if c = CHR ''/'' then CHR '' '' else c) ascii;
          joined = join ''_'' (split nosep)
      in strip_chars ''._'' (filter safe_char joined))"

text \<open>Applied to a request value: anything but a string raises \<open>TypeError\<close>.\<close>

fun secure_filename_of :: "json \<Rightarrow> exn + string" where
  "secure_filename_of (JStr s) = Inr (secure_filename s)"
| "secure_filename_of _ = Inl TypeError"

section \<open>The store\<close>

subsection \<open>SQL values and the driver\<close>

datatype sqlval = SNull | SInt int | SText string

text \<open>
  What the driver binds for a Python value used as a statement parameter: \<open>None\<close>,
  integers (booleans are integers) and strings are stored; a list or a dict is refused.
\<close>

fun adapt :: "json \<Rightarrow> exn + sqlval" where
  "adapt JNull = Inr SNull"
| "adapt (JBool b) = Inr (SInt (if b then 1 else 0))"
| "adapt (JInt n) = Inr (SInt n)"
| "adapt (JStr s) = Inr (SText s)"
| "adapt (JArr xs) = Inl BindError"
| "adapt (JObj kvs) = Inl BindError"

fun show_nat :: "nat \<Rightarrow> string" where
  "show_nat n =
     (if n < 10 then [char_of (48 + n)]
      else show_nat (n div 10) @ [char_of (48 + n mod 10)])"

declare show_nat.simps [simp del]

definition show_int :: "int \<Rightarrow> string" where
  "show_int n = (if n < 0 then CHR ''-'' # show_nat (nat (- n)) else show_nat (nat n))"

text \<open>
  A column declared \<open>TEXT\<close> stores an integer in its decimal text form.
\<close>

fun text_affinity :: "sqlval \<Rightarrow> string option" where
  "text_affinity SNull = None"
| "text_affinity (SInt n) = Some (show_int n)"
| "text_affinity (SText s) = Some s"

subsection \<open>Tables\<close>

text \<open>
  The two tables of \<open>init_db\<close>, a row per record, in insertion order. Columns without
  \<open>NOT NULL\<close> are optional; \<open>TEXT\<close> columns hold text and \<open>INTEGER\<close> columns integers.
\<close>

record organization =
  o_id :: int
  o_name :: string
  o_slug :: string
  o_support_email :: "string option"
  o_phone :: "string option"
  o_alt_phone :: "string option"
  o_website :: "string option"
  o_max_coordinators :: "int option"
  o_timezone :: "string option"
  o_language :: "string option"
  o_status :: "string option"
  o_pending_requests :: "int option"
  o_created_at :: "string option"

record user =
  u_id :: int
  u_org_id :: "int option"
  u_name :: string
  u_email :: string
  u_role :: string
  u_phone :: "string option"
  u_timezone :: "string option"
  u_created_at :: "string option"

record store =
  organizations :: "organization list"
  users :: "user list"

text \<open>\<open>INTEGER PRIMARY KEY AUTOINCREMENT\<close>: one more than the largest id, from 1.\<close>

definition next_id :: "int list \<Rightarrow> int" where
  "next_id ids = fold max ids 0 + 1"

text \<open>The parameters of the two \<open>INSERT\<close> statements, in the order of their columns.\<close>

record org_params =
  p_name :: sqlval
  p_slug :: sqlval
  p_support_email :: sqlval
  p_phone :: sqlval
  p_alt_phone :: sqlval
  p_website :: sqlval
  p_max_coordinators :: int
  p_timezone :: sqlval
  p_language :: sqlval
  p_status :: sqlval
  p_pending_requests :: int

record user_params =
  q_org_id :: int
  q_name :: sqlval
  q_email :: sqlval
  q_role :: sqlval
  q_phone :: sqlval
  q_timezone :: sqlval

text \<open>
  \<open>INSERT INTO organizations\<close>: \<open>name\<close> and \<open>slug\<close> are \<open>NOT NULL\<close> and \<open>slug\<close> is
  \<open>UNIQUE\<close>; a violated constraint raises \<open>IntegrityError\<close> and writes nothing.
  \<open>created_at\<close> takes the current time \<open>now\<close>.
\<close>

definition new_organization ::
  "int \<Rightarrow> string \<Rightarrow> string \<Rightarrow> string \<Rightarrow> org_params \<Rightarrow> organization" where
  "new_organization i n sl now p =
     \<lparr>o_id = i,
      o_name = n,
      o_slug = sl,
      o_support_email = text_affinity (p_support_email p),
      o_phone = text_affinity (p_phone p),
      o_alt_phone = text_affinity (p_alt_phone p),
      o_website = text_affinity (p_website p),
      o_max_coordinators = Some (p_max_coordinators p),
      o_timezone = text_affinity (p_timezone p),
      o_language = text_affinity (p_language p),
      o_status = text_affinity (p_status p),
      o_pending_requests = Some (p_pending_requests p),
      o_created_at = Some now\<rparr>"

definition insert_organization :: "string \<Rightarrow> org_params \<Rightarrow> store \<Rightarrow> exn + store" where
  "insert_organization now p db =
     (case (text_affinity (p_name p), text_affinity (p_slug p)) of
        (Some n, Some sl) \<Rightarrow>
          if sl \<in> set (map o_slug (organizations db)) then Inl IntegrityError
          else Inr (db\<lparr>organizations := organizations db @
                 [new_organization (next_id (map o_id (organizations db))) n sl now p]\<rparr>)
      | _ \<Rightarrow> Inl IntegrityError)"

text \<open>
  \<open>INSERT INTO users\<close>: \<open>name\<close>, \<open>email\<close> and \<open>role\<close> are \<open>NOT NULL\<close>. The foreign key
  is declared but SQLite does not enforce it unless asked to, and the source does not
  ask. The result carries the new id, which \<open>last_insert_rowid()\<close> reads back.
\<close>

definition new_user ::
  "int \<Rightarrow> string \<Rightarrow> string \<Rightarrow> string \<Rightarrow> string \<Rightarrow> user_params \<Rightarrow> user" where
  "new_user i n e r now p =
     \<lparr>u_id = i,
      u_org_id = Some (q_org_id p),
      u_name = n,
      u_email = e,
      u_role = r,
      u_phone = text_affinity (q_phone p),
      u_timezone = text_affinity (q_timezone p),
      u_created_at = Some now\<rparr>"

definition insert_user :: "string \<Rightarrow> user_params \<Rightarrow> store \<Rightarrow> exn + int \<times> store" where
  "insert_user now p db =
     (case (text_affinity (q_name p), text_affinity (q_email p), text_affinity (q_role p)) of
        (Some n, Some e, Some r) \<Rightarrow>
          (let i = next_id (map u_id (users db)) in
           Inr (i, db\<lparr>users := users db @ [new_user i n e r now p]\<rparr>))
      | _ \<Rightarrow> Inl IntegrityError)"

subsection \<open>Queries\<close>

text \<open>A fetched row as \<open>dict(row)\<close> gives it: column names and values, in column order.\<close>

type_synonym row = "(string \<times> sqlval) list"

definition text_val :: "string option \<Rightarrow> sqlval" where
  "text_val t = (case t of None \<Rightarrow> SNull | Some s \<Rightarrow> SText s)"

definition int_val :: "int option \<Rightarrow> sqlval" where
  "int_val t = (case t of None \<Rightarrow> SNull | Some n \<Rightarrow> SInt n)"

definition org_row :: "organization \<Rightarrow> row" where
  \<comment> \<open>\<open>SELECT * FROM organizations\<close>\<close>
  "org_row g =
     [(''id'', SInt (o_id g)),
      (''name'', SText (o_name g)),
      (''slug'', SText (o_slug g)),
      (''support_email'', text_val (o_support_email g)),
      (''phone'', text_val (o_phone g)),
      (''alt_phone'', text_val (o_alt_phone g)),
      (''website'', text_val (o_website g)),
      (''max_coordinators'', int_val (o_max_coordinators g)),
      (''timezone'', text_val (o_timezone g)),
      (''language'', text_val (o_language g)),
      (''status'', text_val (o_status g)),
      (''pending_requests'', int_val (o_pending_requests g)),
      (''created_at'', text_val (o_created_at g))]"

definition user_cols :: "user \<Rightarrow> row" where
  \<comment> \<open>\<open>u.*\<close>\<close>
  "user_cols u =
     [(''id'', SInt (u_id u)),
      (''org_id'', int_val (u_org_id u)),
      (''name'', SText (u_name u)),
      (''email'', SText (u_email u)),
      (''role'', SText (u_role u)),
      (''phone'', text_val (u_phone u)),
      (''timezone'', text_val (u_timezone u)),
      (''created_at'', text_val (u_created_at u))]"

definition user_row_name_slug :: "user \<times> organization option \<Rightarrow> row" where
  \<comment> \<open>\<open>SELECT u.*, o.name as organization_name, o.slug as organization_slug\<close>\<close>
  "user_row_name_slug j =
     user_cols (fst j) @
     [(''organization_name'', text_val (map_option o_name (snd j))),
      (''organization_slug'', text_val (map_option o_slug (snd j)))]"

definition user_row_name :: "user \<times> organization option \<Rightarrow> row" where
  \<comment> \<open>\<open>SELECT u.*, o.name as organization_name\<close>\<close>
  "user_row_name j =
     user_cols (fst j) @ [(''organization_name'', text_val (map_option o_name (snd j)))]"

text \<open>\<open>cur.fetchone()\<close>: the first row of the result, or \<open>None\<close>.\<close>

definition fetchone :: "'a list \<Rightarrow> 'a option" where
  "fetchone rows = (case rows of [] \<Rightarrow> None | r # _ \<Rightarrow> Some r)"

definition org_where_id :: "int \<Rightarrow> store \<Rightarrow> organization list" where
  \<comment> \<open>\<open>FROM organizations WHERE id=?\<close>, an integer bound\<close>
  "org_where_id i db = filter (\<lambda>g. o_id g = i) (organizations db)"

definition org_where_slug :: "string \<Rightarrow> store \<Rightarrow> organization list" where
  \<comment> \<open>\<open>FROM organizations WHERE slug=?\<close>\<close>
  "org_where_slug sl db = filter (\<lambda>g. o_slug g = sl) (organizations db)"

text \<open>
  \<open>WHERE id=?\<close> with any bound value. \<open>NULL\<close> equals nothing. A text operand compared
  with the \<open>INTEGER\<close> column is first read as a number by SQLite; \<open>numeric_text\<close> is that
  reading (the integer the text denotes, when it denotes one), left as a parameter.
\<close>

definition org_where_id_val ::
  "(string \<Rightarrow> int option) \<Rightarrow> sqlval \<Rightarrow> store \<Rightarrow> organization list" where
  "org_where_id_val numeric_text v db =
     (case v of
        SNull \<Rightarrow> []
      | SInt i \<Rightarrow> org_where_id i db
      | SText t \<Rightarrow> (case numeric_text t of None \<Rightarrow> [] | Some i \<Rightarrow> org_where_id i db))"


text \<open>
  \<open>FROM users u LEFT JOIN organizations o ON u.org_id = o.id\<close>: every user once per
  matching organization, and once with no organization when none matches.
\<close>

definition join_rows :: "organization list \<Rightarrow> user \<Rightarrow> (user \<times> organization option) list" where
  "join_rows gs u =
     (case filter (\<lambda>g. u_org_id u = Some (o_id g)) gs of
        [] \<Rightarrow> [(u, None)]
      | os \<Rightarrow> map (\<lambda>g. (u, Some g)) os)"

definition left_join :: "store \<Rightarrow> (user \<times> organization option) list" where
  "left_join db = concat (map (join_rows (organizations db)) (users db))"

definition user_by_id_desc ::
  "(user \<times> organization option) list \<Rightarrow> (user \<times> organization option) list" where
  \<comment> \<open>\<open>ORDER BY u.id DESC\<close>\<close>
  "user_by_id_desc js = sort_key (\<lambda>j. - u_id (fst j)) js"

text \<open>
  SQLite's \<open>LIKE\<close>, pattern first: \<open>%\<close> matches any run of characters, \<open>_\<close> any one
  character, and every other character matches itself without regard to the case of
  ASCII letters. A \<open>NULL\<close> operand makes the comparison \<open>NULL\<close>, which selects nothing.
\<close>

fun like :: "string \<Rightarrow> string \<Rightarrow> bool" where
  "like [] t = (t = [])"
| "like (p # ps) [] = (p = CHR ''%'' \<and> like ps [])"
| "like (p # ps) (c # cs) =
     (if p = CHR ''%'' then like ps (c # cs) \<or> like (p # ps) cs
      else if p = CHR ''_'' then like ps cs
      else lower_char p = lower_char c \<and> like ps cs)"

definition sql_like :: "string option \<Rightarrow> string \<Rightarrow> bool" where
  "sql_like col pattern = (case col of None \<Rightarrow> False | Some t \<Rightarrow> like pattern t)"

section \<open>Schema and seed data\<close>

definition seed_organizations :: "org_params list" where
  "seed_organizations =
     [\<lparr>p_name = SText ''Massachusetts Institute of Technology'', p_slug = SText ''mit'',
       p_support_email = SText ''support@mit.edu'', p_phone = SText ''+1-617-253-1000'',
       p_alt_phone = SText ''+1-617-253-9999'', p_website = SText ''https://mit.edu'',
       p_max_coordinators = 5, p_timezone = SText ''America/New_York'',
       p_language = SText ''English'', p_status = SText ''Active'',
       p_pending_requests = 45\<rparr>,
      \<lparr>p_name = SText ''GITAM Institute of Technology'', p_slug = SText ''gitam'',
       p_support_email = SText ''gitam@gitam.in'', p_phone = SText ''+91-9676456543'',
       p_alt_phone = SText ''+91-93473294913'', p_website = SText ''https://gitam.edu'',
       p_max_coordinators = 5, p_timezone = SText ''Asia/Kolkata'',
       p_language = SText ''English'', p_status = SText ''Active'',
       p_pending_requests = 45\<rparr>]"

definition seed_users :: "int \<Rightarrow> int \<Rightarrow> user_params list" where
  "seed_users gitam_id mit_id =
     [\<lparr>q_org_id = gitam_id, q_name = SText ''Dave Richards'',
       q_email = SText ''dave.richards@example.com'', q_role = SText ''Admin'',
       q_phone = SText ''+91-9000000001'', q_timezone = SText ''Asia/Kolkata''\<rparr>,
      \<lparr>q_org_id = gitam_id, q_name = SText ''Abhishek Hari'',
       q_email = SText ''abhishek.hari@example.com'', q_role = SText ''Co-ordinator'',
       q_phone = SText ''+91-9000000002'', q_timezone = SText ''Asia/Kolkata''\<rparr>,
      \<lparr>q_org_id = mit_id, q_name = SText ''Nishta Gupta'',
       q_email = SText ''nishta.gupta@example.com'', q_role = SText ''Admin'',
       q_phone = SText ''+1-617-0000003'', q_timezone = SText ''America/New_York''\<rparr>]"

fun insert_organizations :: "string \<Rightarrow> org_params list \<Rightarrow> store \<Rightarrow> exn + store" where
  "insert_organizations now [] db = Inr db"
| "insert_organizations now (p # ps) db =
     ebind (insert_organization now p db) (insert_organizations now ps)"

fun insert_users :: "string \<Rightarrow> user_params list \<Rightarrow> store \<Rightarrow> exn + store" where
  "insert_users now [] db = Inr db"
| "insert_users now (p # ps) db =
     ebind (insert_user now p db) (\<lambda>r. insert_users now ps (snd r))"

text \<open>
  \<open>init_db\<close>, on a store whose two tables exist (\<open>CREATE TABLE IF NOT EXISTS\<close>): seeds
  each table when it is empty. An exception here ends the start-up.
\<close>

definition init_db :: "string \<Rightarrow> store \<Rightarrow> exn + store" where
  "init_db now db =
     ebind (if organizations db = [] then insert_organizations now seed_organizations db
            else Inr db)
       (\<lambda>db1.
          if users db1 = [] then
            (let gitam_id = (case fetchone (org_where_slug ''gitam'' db1) of
                               Some g \<Rightarrow> o_id g | None \<Rightarrow> 1);
                 mit_id = (case fetchone (org_where_slug ''mit'' db1) of
                             Some g \<Rightarrow> o_id g | None \<Rightarrow> 2)
             in insert_users now (seed_users gitam_id mit_id) db1)
          else Inr db1)"

section \<open>Request handlers\<close>

text \<open>
  \<open>jsonify(x), code\<close>: one row, a list of rows, or \<open>{'error': message}\<close>, with the HTTP
  status. A handler that writes returns its response, or the exception that left it,
  and the store as it is afterwards.
\<close>

datatype response = Row row int | Rows "row list" int | Error string int

subsection \<open>Organizations\<close>


definition api_get_organization :: "int \<Rightarrow> store \<Rightarrow> response" where
  "api_get_organization org_id db =
     (case fetchone (org_where_id org_id db) of
        None \<Rightarrow> Error ''Organization not found'' 404
      | Some g \<Rightarrow> Row (org_row g) 200)"

text \<open>
  The parameter tuple of the \<open>INSERT\<close> in \<open>api_create_organization\<close>: the two \<open>int(...)\<close>
  are evaluated while the tuple is built, then the driver binds each value.
\<close>

definition org_params_of :: "body \<Rightarrow> string \<Rightarrow> exn + org_params" where
  "org_params_of data slug =
     ebind (py_int (py_or (dict_get data ''max_coordinators'') (JInt 5))) (\<lambda>mc.
     ebind (py_int (py_or (dict_get data ''pending_requests'') (JInt 0))) (\<lambda>pr.
     ebind (adapt (dict_get data ''name'')) (\<lambda>n.
     ebind (adapt (dict_get data ''support_email'')) (\<lambda>se.
     ebind (adapt (dict_get data ''phone'')) (\<lambda>ph.
     ebind (adapt (dict_get data ''alt_phone'')) (\<lambda>ap.
     ebind (adapt (dict_get data ''website'')) (\<lambda>w.
     ebind (adapt (py_or (dict_get data ''timezone'') (JStr ''Asia/Kolkata''))) (\<lambda>tz.
     ebind (adapt (py_or (dict_get data ''language'') (JStr ''English''))) (\<lambda>lg.
     ebind (adapt (py_or (dict_get data ''status'') (JStr ''Active''))) (\<lambda>st.
       Inr \<lparr>p_name = n, p_slug = SText slug, p_support_email = se, p_phone = ph,
            p_alt_phone = ap, p_website = w, p_max_coordinators = mc, p_timezone = tz,
            p_language = lg, p_status = st, p_pending_requests = pr\<rparr>))))))))))"

definition api_create_organization ::
  "string \<Rightarrow> body \<Rightarrow> store \<Rightarrow> (exn + response) \<times> store" where
  "api_create_organization now data db =
     (case first_missing [''name'', ''slug''] data of
        Some r \<Rightarrow> (Inr (Error (r @ '' is required'') 400), db)
      | None \<Rightarrow>
          (case ebind (subscript data ''slug'') secure_filename_of of
             Inl e \<Rightarrow> (Inl e, db)
           | Inr safe \<Rightarrow>
               (let slug = lower safe in
                case ebind (org_params_of data slug) (\<lambda>p. insert_organization now p db) of
                  Inl e \<Rightarrow>
                    if e = IntegrityError
                    then (Inr (Error ''Slug already exists or invalid data'' 400), db)
                    else (Inl e, db)
                | Inr db' \<Rightarrow>
                    (case fetchone (org_where_slug slug db') of
                       None \<Rightarrow> (Inl TypeError, db')
                     | Some g \<Rightarrow> (Inr (Row (org_row g) 201), db')))))"

text \<open>\<open>UPDATE organizations SET status=? WHERE id=?\<close>.\<close>

definition update_status :: "sqlval \<Rightarrow> int \<Rightarrow> store \<Rightarrow> store" where
  "update_status v org_id db =
     db\<lparr>organizations :=
          map (\<lambda>g. if o_id g = org_id then g\<lparr>o_status := text_affinity v\<rparr> else g)
            (organizations db)\<rparr>"

definition api_change_org_status ::
  "int \<Rightarrow> body \<Rightarrow> store \<Rightarrow> (exn + response) \<times> store" where
  "api_change_org_status org_id data db =
     (case data ''status'' of
        None \<Rightarrow> (Inr (Error ''status required'' 400), db)
      | Some status \<Rightarrow>
          (case fetchone (org_where_id org_id db) of
             None \<Rightarrow> (Inr (Error ''Organization not found'' 404), db)
           | Some _ \<Rightarrow>
               (case adapt status of
                  Inl e \<Rightarrow> (Inl e, db)
                | Inr v \<Rightarrow>
                    (let db' = update_status v org_id db in
                     case fetchone (org_where_id org_id db') of
                       None \<Rightarrow> (Inl TypeError, db')
                     | Some g \<Rightarrow> (Inr (Row (org_row g) 200), db')))))"

subsection \<open>Users\<close>

definition api_get_users :: "store \<Rightarrow> response" where
  "api_get_users db = Rows (map user_row_name_slug (user_by_id_desc (left_join db))) 200"

text \<open>
  The parameter tuple of the \<open>INSERT\<close> in \<open>api_create_user\<close>: \<open>int(data['org_id'])\<close> and
  the subscripts are evaluated while the tuple is built, then the driver binds each
  value.
\<close>

definition user_params_of :: "body \<Rightarrow> exn + user_params" where
  "user_params_of data =
     ebind (ebind (subscript data ''org_id'') py_int) (\<lambda>oid.
     ebind (subscript data ''name'') (\<lambda>n.
     ebind (subscript data ''email'') (\<lambda>e.
     ebind (subscript data ''role'') (\<lambda>r.
     ebind (adapt n) (\<lambda>vn.
     ebind (adapt e) (\<lambda>ve.
     ebind (adapt r) (\<lambda>vr.
     ebind (adapt (dict_get data ''phone'')) (\<lambda>vp.
     ebind (adapt (dict_get data ''timezone'')) (\<lambda>vt.
       Inr \<lparr>q_org_id = oid, q_name = vn, q_email = ve, q_role = vr, q_phone = vp,
            q_timezone = vt\<rparr>)))))))))"

definition api_create_user ::
  "(string \<Rightarrow> int option) \<Rightarrow> string \<Rightarrow> body \<Rightarrow> store \<Rightarrow> (exn + response) \<times> store" where
  "api_create_user numeric_text now data db =
     (case first_missing [''name'', ''email'', ''role'', ''org_id''] data of
        Some r \<Rightarrow> (Inr (Error (r @ '' is required'') 400), db)
      | None \<Rightarrow>
          (case ebind (subscript data ''org_id'') adapt of
             Inl e \<Rightarrow> (Inl e, db)
           | Inr v \<Rightarrow>
               (case fetchone (org_where_id_val numeric_text v db) of
                  None \<Rightarrow> (Inr (Error ''Organization does not exist'' 400), db)
                | Some _ \<Rightarrow>
                    (case ebind (user_params_of data) (\<lambda>p. insert_user now p db) of
                       Inl e \<Rightarrow> (Inl e, db)
                     | Inr (i, db') \<Rightarrow>
                         (case fetchone (filter (\<lambda>j. u_id (fst j) = i) (left_join db')) of
                            None \<Rightarrow> (Inl TypeError, db')
                          | Some j \<Rightarrow> (Inr (Row (user_row_name j) 201), db'))))))"

subsection \<open>Search\<close>

text \<open>\<open>request.args.get('q', '').strip()\<close>, the query parameter being optional.\<close>

definition query_arg :: "string option \<Rightarrow> string" where
  "query_arg q = strip (case q of None \<Rightarrow> [] | Some s \<Rightarrow> s)"


definition api_search_users :: "string option \<Rightarrow> store \<Rightarrow> response" where
  "api_search_users arg db =
     (let q = query_arg arg in
      if q = [] then Rows (map user_row_name_slug (user_by_id_desc (left_join db))) 200
      else
        (let pattern = ''%'' @ q @ ''%'' in
         Rows (map user_row_name (user_by_id_desc
           (filter (\<lambda>j. like pattern (u_name (fst j)) \<or> like pattern (u_email (fst j)) \<or>
                        sql_like (map_option o_name (snd j)) pattern)
              (left_join db)))) 200))"

subsection \<open>Routing\<close>

text \<open>
  The routes of the application and \<open>init_db\<close>, and the store each leaves behind. The
  handlers that only read take the store and return a response.
\<close>

datatype request =
    InitDb
  | GetOrganizations
  | GetOrganization int
  | CreateOrganization body
  | ChangeOrgStatus int body
  | GetUsers
  | CreateUser body
  | SearchOrgs "string option"
  | SearchUsers "string option"

fun store_after :: "(string \<Rightarrow> int option) \<Rightarrow> string \<Rightarrow> request \<Rightarrow> store \<Rightarrow> store" where
  "store_after numeric_text now InitDb db =
     (case init_db now db of Inl e \<Rightarrow> db | Inr db' \<Rightarrow> db')"
| "store_after numeric_text now (CreateOrganization data) db =
     snd (api_create_organization now data db)"
| "store_after numeric_text now (ChangeOrgStatus org_id data) db =
     snd (api_change_org_status org_id data db)"
| "store_after numeric_text now (CreateUser data) db =
     snd (api_create_user numeric_text now data db)"
| "store_after numeric_text now _ db = db"

section \<open>Properties of requests and stores\<close>

definition empty_store :: store where
  "empty_store = \<lparr>organizations = [], users = []\<rparr>"

text \<open>The store of a first start: \<open>init_db\<close> on empty tables.\<close>

definition seeded_store :: store where
  "seeded_store = store_after (\<lambda>t. None) ''2024-01-01 00:00:00'' InitDb empty_store"

text \<open>
  What the schema keeps true: \<open>UNIQUE\<close> slugs, and for the organizations primary keys
  that are distinct and, being assigned from 1 upwards, positive.
\<close>

definition slugs_unique :: "store \<Rightarrow> bool" where
  "slugs_unique db = distinct (map o_slug (organizations db))"

definition ids_ok :: "store \<Rightarrow> bool" where
  "ids_ok db =
     (distinct (map o_id (organizations db)) \<and> list_all (\<lambda>g. 0 < o_id g) (organizations db))"

text \<open>
  The stores the application can be in: empty tables, and what any operation leaves
  from such a store.
\<close>

inductive reachable :: "(string \<Rightarrow> int option) \<Rightarrow> store \<Rightarrow> bool"
  for numeric_text :: "string \<Rightarrow> int option" where
  start: "reachable numeric_text empty_store"
| step: "reachable numeric_text db \<Longrightarrow> reachable numeric_text (store_after numeric_text now req db)"

text \<open>
  A scalar is a value the driver can bind: null, a boolean, an integer or a string. A
  value is coercible when \<open>int(...)\<close> accepts it.
\<close>

fun scalar :: "json \<Rightarrow> bool" where
  "scalar (JArr xs) = False"
| "scalar (JObj kvs) = False"
| "scalar _ = True"

definition coercible :: "json \<Rightarrow> bool" where
  "coercible v = (case py_int v of Inl e \<Rightarrow> False | Inr n \<Rightarrow> True)"

fun nonempty_str :: "json option \<Rightarrow> bool" where
  "nonempty_str (Some (JStr s)) = (s \<noteq> [])"
| "nonempty_str _ = False"

text \<open>
  A well-typed creation request: a non-empty name and slug, both strings; the optional
  text fields scalars; the two numeric fields absent, false or coercible. These are the
  requests that fail for no reason of their own.
\<close>

definition well_typed_org_request :: "body \<Rightarrow> bool" where
  "well_typed_org_request data =
     (nonempty_str (data ''name'') \<and> nonempty_str (data ''slug'') \<and>
      list_all (\<lambda>k. scalar (dict_get data k))
        [''support_email'', ''phone'', ''alt_phone'', ''website'', ''timezone'',
         ''language'', ''status''] \<and>
      list_all (\<lambda>k. \<not> truthy (dict_get data k) \<or> coercible (dict_get data k))
        [''max_coordinators'', ''pending_requests''])"








text \<open>The keys of a returned row.\<close>

definition keys :: "row \<Rightarrow> string list" where
  "keys r = map fst r"

section \<open>Auxiliary facts\<close>

lemma ebind_Inl [simp]: "ebind (Inl e) f = Inl e"
  by (simp add: ebind_def)

lemma ebind_Inr [simp]: "ebind (Inr v) f = f v"
  by (simp add: ebind_def)

lemma ebind_eq_Inr: "ebind m f = Inr y \<longleftrightarrow> (\<exists>v. m = Inr v \<and> f v = Inr y)"
  by (cases m) simp_all

lemma fold_max_ge: "(a::int) \<le> fold max xs a"
  by (induction xs arbitrary: a) (auto intro: order_trans [OF max.cobounded2])

lemma fold_max_mem: "(x::int) \<in> set xs \<Longrightarrow> x \<le> fold max xs a"
  by (induction xs arbitrary: a) (auto intro: order_trans [OF max.cobounded1 fold_max_ge])

lemma next_id_fresh: "i \<in> set ids \<Longrightarrow> i < next_id ids"
  using fold_max_mem [of i ids 0] by (simp add: next_id_def)

lemma next_id_pos: "0 < next_id ids"
  using fold_max_ge [of 0 ids] by (simp add: next_id_def)

lemma insert_organization_Inr:
  assumes "insert_organization now p db = Inr db'"
  obtains n sl where "text_affinity (p_name p) = Some n" "text_affinity (p_slug p) = Some sl"
    "sl \<notin> set (map o_slug (organizations db))"
    "db' = db\<lparr>organizations := organizations db @
             [new_organization (next_id (map o_id (organizations db))) n sl now p]\<rparr>"
  using assms by (auto simp: insert_organization_def split: option.splits if_splits)

lemma org_params_of_slug:
  "org_params_of data slug = Inr p \<Longrightarrow> p_slug p = SText slug"
  by (auto simp: org_params_of_def ebind_eq_Inr)

lemma org_where_slug_new:
  assumes "sl \<notin> set (map o_slug gs)" "o_slug g = sl"
  shows "org_where_slug sl (db\<lparr>organizations := gs @ [g]\<rparr>) = [g]"
proof -
  have "filter (\<lambda>h. o_slug h = sl) gs = []" using assms(1) by (induction gs) auto
  then show ?thesis using assms(2) by (simp add: org_where_slug_def)
qed

lemma org_where_id_new:
  assumes "i \<notin> set (map o_id gs)" "o_id g = i"
  shows "org_where_id i (db\<lparr>organizations := gs @ [g]\<rparr>) = [g]"
proof -
  have "filter (\<lambda>h. o_id h = i) gs = []" using assms(1) by (induction gs) auto
  then show ?thesis using assms(2) by (simp add: org_where_id_def)
qed

lemma next_id_notin: "next_id ids \<notin> set ids"
  using next_id_fresh [of "next_id ids" ids] by auto

lemma create_organization_success:
  assumes "api_create_organization now data db = (Inr (Row r c), db')"
  obtains s p n where
    "data ''slug'' = Some (JStr s)" "s \<noteq> []"
    "org_params_of data (lower (secure_filename s)) = Inr p"
    "text_affinity (p_name p) = Some n"
    "lower (secure_filename s) \<notin> set (map o_slug (organizations db))"
    "db' = db\<lparr>organizations := organizations db @
       [new_organization (next_id (map o_id (organizations db))) n (lower (secure_filename s)) now p]\<rparr>"
    "r = org_row (new_organization (next_id (map o_id (organizations db))) n (lower (secure_filename s)) now p)"
    "c = 201"
proof -
  from assms have fm: "first_missing [''name'', ''slug''] data = None"
    by (auto simp: api_create_organization_def split: option.splits)
  then obtain v where v: "data ''slug'' = Some v" "truthy v"
    by (auto simp: first_missing_def missing_def split: option.splits if_splits)
  from assms fm v obtain s where s: "v = JStr s"
    by (cases v) (auto simp: api_create_organization_def subscript_def)
  with v have sne: "s \<noteq> []" by simp
  let ?sl = "lower (secure_filename s)"
  from assms fm v s obtain db1 where
    ins: "ebind (org_params_of data ?sl) (\<lambda>p. insert_organization now p db) = Inr db1"
    by (auto simp: api_create_organization_def subscript_def Let_def split: sum.splits if_splits)
  then obtain p where p: "org_params_of data ?sl = Inr p" "insert_organization now p db = Inr db1"
    by (auto simp: ebind_eq_Inr)
  from p(2) obtain n sl where ns: "text_affinity (p_name p) = Some n"
    "text_affinity (p_slug p) = Some sl" "sl \<notin> set (map o_slug (organizations db))"
    "db1 = db\<lparr>organizations := organizations db @
             [new_organization (next_id (map o_id (organizations db))) n sl now p]\<rparr>"
    by (rule insert_organization_Inr)
  from org_params_of_slug [OF p(1)] ns(2) have sl: "sl = ?sl" by simp
  let ?g = "new_organization (next_id (map o_id (organizations db))) n ?sl now p"
  have w: "org_where_slug ?sl db1 = [?g]"
    unfolding ns(4) sl using ns(3) sl
    by (intro org_where_slug_new) (simp_all add: new_organization_def)
  from assms fm v s ins w have "r = org_row ?g" "c = 201" "db' = db1"
    by (auto simp: api_create_organization_def subscript_def Let_def fetchone_def)
  with that [OF _ sne p(1) ns(1)] v s ns sl show thesis by simp
qed


section \<open>Organization creation\<close>

text \<open>
  C1. Whenever an Organization create request succeeds, its name and slug were
  non-empty, the slug of the returned row is the sanitized form of the submitted slug
  (\<open>secure_filename\<close>, then lowercased), and a get-by-id with the id of the returned row
  returns the same row.
\<close>

theorem create_organization_slug_roundtrip:
  assumes "api_create_organization now data db = (Inr (Row r 201), db')"
  shows "\<exists>s i. data ''slug'' = Some (JStr s) \<and> s \<noteq> []
           \<and> map_of r ''slug'' = Some (SText (lower (secure_filename s)))
           \<and> map_of r ''id'' = Some (SInt i)
           \<and> api_get_organization i db' = Row r 200"
proof -
  from assms obtain s p n where
    s: "data ''slug'' = Some (JStr s)" "s \<noteq> []"
    and db': "db' = db\<lparr>organizations := organizations db @
       [new_organization (next_id (map o_id (organizations db))) n (lower (secure_filename s)) now p]\<rparr>"
    and r: "r = org_row (new_organization (next_id (map o_id (organizations db))) n (lower (secure_filename s)) now p)"
    by (rule create_organization_success)
  let ?i = "next_id (map o_id (organizations db))"
  let ?g = "new_organization ?i n (lower (secure_filename s)) now p"
  have "org_where_id ?i db' = [?g]"
    unfolding db' by (intro org_where_id_new next_id_notin) (simp add: new_organization_def)
  then have "api_get_organization ?i db' = Row r 200"
    by (simp add: api_get_organization_def fetchone_def r)
  moreover have "map_of r ''slug'' = Some (SText (lower (secure_filename s)))"
    "map_of r ''id'' = Some (SInt ?i)"
    by (simp_all add: r org_row_def new_organization_def)
  ultimately show ?thesis using s by blast
qed

text \<open>The request of the spec's end-to-end example, on empty tables.\<close>

theorem create_organization_slug_roundtrip_witness:
  "\<exists>r db'. api_create_organization ''2024-01-01 00:00:00''
       (map_of [(''name'', JStr ''Test U''), (''slug'', JStr ''Test U!'')]) empty_store
         = (Inr (Row r 201), db')
     \<and> map_of r ''slug'' = Some (SText ''test_u'')
     \<and> map_of r ''id'' = Some (SInt 1)
     \<and> api_get_organization 1 db' = Row r 200"
proof -
  let ?data = "map_of [(''name'', JStr ''Test U''), (''slug'', JStr ''Test U!'')]"
  let ?g = "\<lparr>o_id = 1, o_name = ''Test U'', o_slug = ''test_u'', o_support_email = None,
     o_phone = None, o_alt_phone = None, o_website = None, o_max_coordinators = Some 5,
     o_timezone = Some ''Asia/Kolkata'', o_language = Some ''English'',
     o_status = Some ''Active'', o_pending_requests = Some 0,
     o_created_at = Some ''2024-01-01 00:00:00''\<rparr>"
  have run: "api_create_organization ''2024-01-01 00:00:00'' ?data empty_store
      = (Inr (Row (org_row ?g) 201), \<lparr>organizations = [?g], users = []\<rparr>)"
    by code_simp
  have sl: "lower (secure_filename ''Test U!'') = ''test_u''" by code_simp
  from create_organization_slug_roundtrip [OF run] sl
  have "map_of (org_row ?g) ''slug'' = Some (SText ''test_u'')
     \<and> (\<exists>i. map_of (org_row ?g) ''id'' = Some (SInt i)
           \<and> api_get_organization i \<lparr>organizations = [?g], users = []\<rparr> = Row (org_row ?g) 200)"
    by auto
  moreover have "map_of (org_row ?g) ''id'' = Some (SInt 1)" by (simp add: org_row_def)
  ultimately show ?thesis using run by (intro exI [of _ "org_row ?g"] exI [of _ "\<lparr>organizations = [?g], users = []\<rparr>"]) auto
qed


section \<open>Slug uniqueness\<close>

lemma scalar_adapt: "scalar v \<Longrightarrow> \<exists>x. adapt v = Inr x"
  by (cases v) simp_all

lemma adapt_scalar: "adapt v = Inr x \<Longrightarrow> scalar v"
  by (cases v) simp_all

lemma scalar_py_or: "scalar v \<Longrightarrow> scalar d \<Longrightarrow> scalar (py_or v d)"
  by (simp add: py_or_def)

lemma coerce_default:
  "\<not> truthy v \<or> coercible v \<Longrightarrow> \<exists>n. py_int (py_or v (JInt d)) = Inr n"
  by (auto simp: py_or_def coercible_def split: sum.splits)

lemma nonempty_str_cases:
  assumes "nonempty_str x"
  obtains s where "x = Some (JStr s)" "s \<noteq> []"
  using assms by (cases x rule: nonempty_str.cases) auto

lemma well_typed_not_missing:
  "well_typed_org_request data \<Longrightarrow> first_missing [''name'', ''slug''] data = None"
  by (auto simp: well_typed_org_request_def first_missing_def missing_def
      elim!: nonempty_str_cases)

lemma well_typed_org_params:
  assumes "well_typed_org_request data"
  shows "\<exists>p n. org_params_of data slug = Inr p \<and> text_affinity (p_name p) = Some n
           \<and> p_slug p = SText slug"
proof -
  from assms obtain nm where nm: "data ''name'' = Some (JStr nm)"
    by (auto simp: well_typed_org_request_def elim!: nonempty_str_cases)
  from assms have sc: "scalar (dict_get data ''support_email'')" "scalar (dict_get data ''phone'')"
    "scalar (dict_get data ''alt_phone'')" "scalar (dict_get data ''website'')"
    "scalar (dict_get data ''timezone'')" "scalar (dict_get data ''language'')"
    "scalar (dict_get data ''status'')"
    and co: "\<not> truthy (dict_get data ''max_coordinators'') \<or> coercible (dict_get data ''max_coordinators'')"
      "\<not> truthy (dict_get data ''pending_requests'') \<or> coercible (dict_get data ''pending_requests'')"
    by (simp_all add: well_typed_org_request_def)
  from coerce_default [OF co(1)] obtain mc where
    mc: "py_int (py_or (dict_get data ''max_coordinators'') (JInt 5)) = Inr mc" by blast
  from coerce_default [OF co(2)] obtain pr where
    pr: "py_int (py_or (dict_get data ''pending_requests'') (JInt 0)) = Inr pr" by blast
  from scalar_adapt [OF sc(1)] obtain se where se: "adapt (dict_get data ''support_email'') = Inr se" ..
  from scalar_adapt [OF sc(2)] obtain ph where ph: "adapt (dict_get data ''phone'') = Inr ph" ..
  from scalar_adapt [OF sc(3)] obtain ap where ap: "adapt (dict_get data ''alt_phone'') = Inr ap" ..
  from scalar_adapt [OF sc(4)] obtain w where w: "adapt (dict_get data ''website'') = Inr w" ..
  from scalar_adapt [OF scalar_py_or [OF sc(5)], of "JStr ''Asia/Kolkata''"]
  obtain tz where tz: "adapt (py_or (dict_get data ''timezone'') (JStr ''Asia/Kolkata'')) = Inr tz"
    by auto
  from scalar_adapt [OF scalar_py_or [OF sc(6)], of "JStr ''English''"]
  obtain lg where lg: "adapt (py_or (dict_get data ''language'') (JStr ''English'')) = Inr lg"
    by auto
  from scalar_adapt [OF scalar_py_or [OF sc(7)], of "JStr ''Active''"]
  obtain st where st: "adapt (py_or (dict_get data ''status'') (JStr ''Active'')) = Inr st"
    by auto
  have n: "adapt (dict_get data ''name'') = Inr (SText nm)" by (simp add: dict_get_def nm)
  show ?thesis
    unfolding org_params_of_def by (simp add: mc pr se ph ap w tz lg st n)
qed


lemma insert_organization_slugs:
  assumes "insert_organization now p db = Inr db'" "slugs_unique db"
  shows "slugs_unique db'"
proof -
  from assms(1) obtain n sl where "sl \<notin> set (map o_slug (organizations db))"
    "db' = db\<lparr>organizations := organizations db @
             [new_organization (next_id (map o_id (organizations db))) n sl now p]\<rparr>"
    by (rule insert_organization_Inr)
  with assms(2) show ?thesis by (simp add: slugs_unique_def new_organization_def)
qed

lemma insert_organization_users:
  "insert_organization now p db = Inr db' \<Longrightarrow> users db' = users db"
  by (erule insert_organization_Inr) simp

lemma insert_organizations_slugs:
  "insert_organizations now ps db = Inr db' \<Longrightarrow> slugs_unique db \<Longrightarrow> slugs_unique db'"
  by (induction ps arbitrary: db) (auto simp: ebind_eq_Inr dest: insert_organization_slugs)

lemma insert_user_organizations:
  "insert_user now p db = Inr (i, db') \<Longrightarrow> organizations db' = organizations db"
  by (auto simp: insert_user_def Let_def split: option.splits)

lemma insert_users_organizations:
  "insert_users now ps db = Inr db' \<Longrightarrow> organizations db' = organizations db"
  by (induction ps arbitrary: db) (auto simp: ebind_eq_Inr dest: insert_user_organizations)

lemma init_db_slugs:
  assumes "init_db now db = Inr db'" "slugs_unique db"
  shows "slugs_unique db'"
proof -
  from assms(1) obtain db1 where
    a: "(if organizations db = [] then insert_organizations now seed_organizations db else Inr db) = Inr db1"
    and b: "organizations db' = organizations db1"
    by (auto simp: init_db_def ebind_eq_Inr Let_def split: if_splits dest: insert_users_organizations)
  from a assms(2) have "slugs_unique db1"
    by (auto split: if_splits dest: insert_organizations_slugs)
  with b show ?thesis by (simp add: slugs_unique_def)
qed

lemma create_organization_store:
  "snd (api_create_organization now data db) = db \<or>
   (\<exists>p. insert_organization now p db = Inr (snd (api_create_organization now data db)))"
  by (auto simp: api_create_organization_def Let_def ebind_eq_Inr
      split: option.splits sum.splits if_splits)

lemma update_status_slugs:
  "map o_slug (organizations (update_status v i db)) = map o_slug (organizations db)"
  by (simp add: update_status_def comp_def if_distrib [of o_slug] cong: if_cong)

lemma update_status_ids:
  "map o_id (organizations (update_status v i db)) = map o_id (organizations db)"
  by (simp add: update_status_def comp_def if_distrib [of o_id] cong: if_cong)

lemma change_status_store:
  "snd (api_change_org_status i data db) = db \<or>
   (\<exists>v. snd (api_change_org_status i data db) = update_status v i db)"
  by (auto simp: api_change_org_status_def Let_def split: option.splits sum.splits)

lemma create_user_organizations:
  "organizations (snd (api_create_user nt now data db)) = organizations db"
  by (auto simp: api_create_user_def ebind_eq_Inr split: option.splits sum.splits prod.splits
      dest: insert_user_organizations)

lemma store_after_slugs:
  assumes "slugs_unique db"
  shows "slugs_unique (store_after nt now req db)"
proof (cases req)
  case InitDb
  with assms show ?thesis by (auto split: sum.splits dest: init_db_slugs)
next
  case (CreateOrganization data)
  with assms create_organization_store [of now data db] show ?thesis
    by (auto dest: insert_organization_slugs)
next
  case (ChangeOrgStatus i data)
  with assms change_status_store [of i data db] show ?thesis
    by (auto simp: slugs_unique_def update_status_slugs)
next
  case (CreateUser data)
  with assms show ?thesis by (simp add: slugs_unique_def create_user_organizations)
qed (use assms in simp_all)





section \<open>User creation\<close>






lemma join_rows_fst: "j \<in> set (join_rows gs u) \<Longrightarrow> fst j = u"
  by (auto simp: join_rows_def split: list.splits)


lemma filter_join_rows_same:
  "u_id u = i \<Longrightarrow> filter (\<lambda>j. u_id (fst j) = i) (join_rows gs u) = join_rows gs u"
  by (auto simp: filter_id_conv dest: join_rows_fst)







section \<open>Status update\<close>









text \<open>A status that is an array or an object never reaches the table.\<close>

lemma change_status_not_scalar:
  assumes "data ''status'' = Some v" "\<not> scalar v" "g \<in> set (organizations db)"
  shows "api_change_org_status (o_id g) data db = (Inl BindError, db)"
proof -
  from assms(3) have "org_where_id (o_id g) db \<noteq> []"
    by (auto simp: org_where_id_def filter_empty_conv)
  moreover from assms(2) have "adapt v = Inl BindError" by (cases v) simp_all
  ultimately show ?thesis
    using assms(1) by (auto simp: api_change_org_status_def fetchone_def split: list.splits)
qed

section \<open>Numeric fields of a new organization\<close>













section \<open>Search\<close>









text \<open>
  C10. For a query that is not empty once trimmed, every row the users search returns
  has the key \<open>organization_name\<close> and lacks the key \<open>organization_slug\<close>; every row of
  the users List endpoint, and of the search with an empty query, has both.
\<close>

theorem search_users_row_shape:
  "(query_arg arg \<noteq> [] \<longrightarrow>
      (\<exists>rows. api_search_users arg db = Rows rows 200
         \<and> list_all (\<lambda>r. ''organization_name'' \<in> set (keys r)
                        \<and> ''organization_slug'' \<notin> set (keys r)) rows))
   \<and> (query_arg arg = [] \<longrightarrow>
      (\<exists>rows. api_search_users arg db = Rows rows 200
         \<and> list_all (\<lambda>r. ''organization_name'' \<in> set (keys r)
                        \<and> ''organization_slug'' \<in> set (keys r)) rows))
   \<and> (\<exists>rows. api_get_users db = Rows rows 200
         \<and> list_all (\<lambda>r. ''organization_name'' \<in> set (keys r)
                        \<and> ''organization_slug'' \<in> set (keys r)) rows)"
  by (simp add: api_search_users_def api_get_users_def Let_def list_all_iff keys_def
      user_row_name_def user_row_name_slug_def user_cols_def)

text \<open>Two of the three seeded users belong to the organization a query finds.\<close>

theorem search_users_row_shape_witness:
  "query_arg (Some ''gitam'') \<noteq> []
   \<and> (\<exists>rows. api_search_users (Some ''gitam'') seeded_store = Rows rows 200
        \<and> length rows = 2
        \<and> list_all (\<lambda>r. ''organization_name'' \<in> set (keys r)
                       \<and> ''organization_slug'' \<notin> set (keys r)) rows)
   \<and> (\<exists>rows. api_get_users seeded_store = Rows rows 200
        \<and> length rows = 3
        \<and> list_all (\<lambda>r. ''organization_name'' \<in> set (keys r)
                       \<and> ''organization_slug'' \<in> set (keys r)) rows)"
proof -
  have q: "query_arg (Some ''gitam'') \<noteq> []" by code_simp
  from search_users_row_shape [of "Some ''gitam''" seeded_store, THEN conjunct1, THEN mp, OF q]
  obtain rows where rows: "api_search_users (Some ''gitam'') seeded_store = Rows rows 200"
    "list_all (\<lambda>r. ''organization_name'' \<in> set (keys r)
                       \<and> ''organization_slug'' \<notin> set (keys r)) rows" by blast
  have "length (case api_search_users (Some ''gitam'') seeded_store of
                  Rows rs c \<Rightarrow> rs | _ \<Rightarrow> []) = 2" by code_simp
  with rows have two: "length rows = 2" by simp
  from search_users_row_shape [of "Some ''gitam''" seeded_store, THEN conjunct2, THEN conjunct2]
  obtain all where all: "api_get_users seeded_store = Rows all 200"
    "list_all (\<lambda>r. ''organization_name'' \<in> set (keys r)
                       \<and> ''organization_slug'' \<in> set (keys r)) all" by blast
  have "length (case api_get_users seeded_store of Rows rs c \<Rightarrow> rs | _ \<Rightarrow> []) = 3"
    by code_simp
  with all have three: "length all = 3" by simp
  from q rows two all three show ?thesis by blast
qed

section \<open>A slug that sanitizes to nothing\<close>

lemma create_organization_free_slug:
  assumes wt: "well_typed_org_request data"
    and s: "data ''slug'' = Some (JStr s)"
    and free: "lower (secure_filename s) \<notin> set (map o_slug (organizations db))"
  shows "\<exists>r db'. api_create_organization now data db = (Inr (Row r 201), db')
           \<and> map_of r ''slug'' = Some (SText (lower (secure_filename s)))
           \<and> lower (secure_filename s) \<in> set (map o_slug (organizations db'))"
proof -
  let ?sl = "lower (secure_filename s)"
  from well_typed_org_params [OF wt, of ?sl] obtain p n where
    p: "org_params_of data ?sl = Inr p"
    "text_affinity (p_name p) = Some n" "p_slug p = SText ?sl" by blast
  let ?g = "new_organization (next_id (map o_id (organizations db))) n ?sl now p"
  let ?db' = "db\<lparr>organizations := organizations db @ [?g]\<rparr>"
  have ins: "insert_organization now p db = Inr ?db'"
    using p free by (simp add: insert_organization_def)
  have sel: "org_where_slug ?sl ?db' = [?g]"
    using free by (intro org_where_slug_new) (simp_all add: new_organization_def)
  have "api_create_organization now data db = (Inr (Row (org_row ?g) 201), ?db')"
    using well_typed_not_missing [OF wt] s p(1) ins sel
    by (simp add: api_create_organization_def subscript_def Let_def fetchone_def)
  moreover have "map_of (org_row ?g) ''slug'' = Some (SText ?sl)"
    by (simp add: org_row_def new_organization_def)
  moreover have "?sl \<in> set (map o_slug (organizations ?db'))"
    by (simp add: new_organization_def)
  ultimately show ?thesis by blast
qed

text \<open>
  C9. The creation checks that the submitted slug is not empty, not that the sanitized
  one is: the slug \<open>!!!\<close> is not empty and every character of it is stripped, and on the
  seeded store the request succeeds with 201, the slug returned and the slug stored
  both being the empty string.
\<close>

theorem empty_sanitized_slug_accepted:
  "nonempty_str (Some (JStr ''!!!''))
   \<and> lower (secure_filename ''!!!'') = []
   \<and> (\<exists>r db'.
        api_create_organization now
          (map_of [(''name'', JStr ''Acme''), (''slug'', JStr ''!!!'')]) seeded_store
          = (Inr (Row r 201), db')
      \<and> map_of r ''slug'' = Some (SText [])
      \<and> [] \<in> set (map o_slug (organizations db')))"
proof -
  let ?data = "map_of [(''name'', JStr ''Acme''), (''slug'', JStr ''!!!'')]"
  have sl: "lower (secure_filename ''!!!'') = []" by code_simp
  have wt: "well_typed_org_request ?data" by code_simp
  have s: "?data ''slug'' = Some (JStr ''!!!'')" by simp
  have free: "lower (secure_filename ''!!!'') \<notin> set (map o_slug (organizations seeded_store))"
    unfolding sl by code_simp
  from create_organization_free_slug [OF wt s free, of now]
  have ex: "\<exists>r db'.
        api_create_organization now ?data seeded_store = (Inr (Row r 201), db')
      \<and> map_of r ''slug'' = Some (SText [])
      \<and> [] \<in> set (map o_slug (organizations db'))"
    unfolding sl .
  have ne: "nonempty_str (Some (JStr ''!!!''))" by simp
  from ne sl ex show ?thesis by (intro conjI)
qed

section \<open>The keys of the organizations\<close>

text \<open>
  The condition on the ids that the theorems on users and on the status assume is one
  every operation keeps, and one that holds of empty tables: it holds of every store
  the application reaches.
\<close>

lemma insert_organization_ids:
  assumes "insert_organization now p db = Inr db'" "ids_ok db"
  shows "ids_ok db'"
proof -
  from assms(1) obtain n sl where
    db': "db' = db\<lparr>organizations := organizations db @
             [new_organization (next_id (map o_id (organizations db))) n sl now p]\<rparr>"
    by (rule insert_organization_Inr)
  have "next_id (map o_id (organizations db)) \<notin> set (map o_id (organizations db))"
    by (rule next_id_notin)
  with assms(2) show ?thesis
    by (simp add: db' ids_ok_def new_organization_def next_id_pos)
qed

lemma insert_organizations_ids:
  "insert_organizations now ps db = Inr db' \<Longrightarrow> ids_ok db \<Longrightarrow> ids_ok db'"
  by (induction ps arbitrary: db) (auto simp: ebind_eq_Inr dest: insert_organization_ids)

lemma init_db_ids:
  assumes "init_db now db = Inr db'" "ids_ok db"
  shows "ids_ok db'"
proof -
  from assms(1) obtain db1 where
    a: "(if organizations db = [] then insert_organizations now seed_organizations db else Inr db) = Inr db1"
    and b: "organizations db' = organizations db1"
    by (auto simp: init_db_def ebind_eq_Inr Let_def split: if_splits dest: insert_users_organizations)
  from a assms(2) have "ids_ok db1"
    by (auto split: if_splits dest: insert_organizations_ids)
  with b show ?thesis by (simp add: ids_ok_def)
qed

lemma ids_ok_map:
  "ids_ok db \<longleftrightarrow>
     distinct (map o_id (organizations db)) \<and> (\<forall>i\<in>set (map o_id (organizations db)). 0 < i)"
  by (auto simp: ids_ok_def list_all_iff)

lemma store_after_ids:
  assumes "ids_ok db"
  shows "ids_ok (store_after nt now req db)"
proof (cases req)
  case InitDb
  with assms show ?thesis by (auto split: sum.splits dest: init_db_ids)
next
  case (CreateOrganization data)
  with assms create_organization_store [of now data db] show ?thesis
    by (auto dest: insert_organization_ids)
next
  case (ChangeOrgStatus i data)
  have "\<And>v. ids_ok (update_status v i db)"
    using assms unfolding ids_ok_map update_status_ids .
  with ChangeOrgStatus assms change_status_store [of i data db] show ?thesis
    by auto
next
  case (CreateUser data)
  with assms show ?thesis by (simp add: ids_ok_def create_user_organizations)
qed (use assms in simp_all)

lemma empty_store_ok: "ids_ok empty_store \<and> slugs_unique empty_store"
  by (simp add: ids_ok_def slugs_unique_def empty_store_def)

lemma reachable_ok: "reachable numeric_text db \<Longrightarrow> ids_ok db \<and> slugs_unique db"
proof (induction rule: reachable.induct)
  case start
  show ?case by (rule empty_store_ok)
next
  case (step db now req)
  then show ?case by (simp add: store_after_ids store_after_slugs)
qed

text \<open>An \<open>org_id\<close> that is an array or an object stops at the driver; nothing is written.\<close>

lemma create_user_org_id_not_scalar:
  assumes "first_missing [''name'', ''email'', ''role'', ''org_id''] data = None"
    and "data ''org_id'' = Some v" "\<not> scalar v"
  shows "api_create_user numeric_text now data db = (Inl BindError, db)"
proof -
  from assms(3) have "adapt v = Inl BindError" by (cases v) simp_all
  with assms(1,2) show ?thesis by (simp add: api_create_user_def subscript_def)
qed


end
